theory Spec2Isabelle
  imports Complex_Main
begin

section \<open>Pseudo-labelling classes of torch\_em.self\_training.pseudo\_labeling\<close>

text \<open>
  The three classes \<^verbatim>\<open>DefaultPseudoLabeler\<close>, \<^verbatim>\<open>ProbabilisticPseudoLabeler\<close> and
  \<^verbatim>\<open>ScheduledPseudoLabeler\<close> are embedded as records and functions over them.

  Conventions of the model.
  \<^item> Python floats that are configuration scalars (thresholds, factor, eps) and tensor
    entries are real numbers: comparisons and arithmetic are exact, rounding is not modelled.
  \<^item> The metric handed to the scheduler and its best-seen value are extended values
    (\<^verbatim>\<open>float('inf')\<close>, \<^verbatim>\<open>float('-inf')\<close> and NaN occur there).
  \<^item> A tensor of rank at least one is the list of its slices along dimension 0, each
    slice flattened to a list of entries. Iterating over a tensor yields these slices.
  \<^item> An exception is a value of type \<open>exn\<close>; a method that raises after having
    mutated the object returns the mutated object next to the exception.
  \<^item> Output written by \<^verbatim>\<open>print\<close> is not modelled.
\<close>

subsection \<open>Values\<close>

datatype exn = ValueError | TypeError | RuntimeError

datatype ext = NegInf | Fin real | PosInf | NaN

text \<open>IEEE comparison \<open>a < b\<close>: false as soon as one side is NaN.\<close>

fun ext_less :: "ext \<Rightarrow> ext \<Rightarrow> bool" where
  "ext_less NaN _ = False"
| "ext_less _ NaN = False"
| "ext_less PosInf _ = False"
| "ext_less _ NegInf = False"
| "ext_less NegInf _ = True"
| "ext_less _ PosInf = True"
| "ext_less (Fin a) (Fin b) = (a < b)"

text \<open>Product and sum of an extended value with a finite scalar.\<close>

fun ext_times :: "ext \<Rightarrow> real \<Rightarrow> ext" where
  "ext_times NaN r = NaN"
| "ext_times (Fin a) r = Fin (a * r)"
| "ext_times PosInf r = (if 0 < r then PosInf else if r < 0 then NegInf else NaN)"
| "ext_times NegInf r = (if 0 < r then NegInf else if r < 0 then PosInf else NaN)"

fun ext_plus :: "ext \<Rightarrow> real \<Rightarrow> ext" where
  "ext_plus (Fin a) r = Fin (a + r)"
| "ext_plus x r = x"

type_synonym 'a tensor = "'a list list"

subsection \<open>Attributes\<close>

text \<open>
  The attributes every labeler carries; \<open>init_kwargs\<close> holds the values stored under the
  keys \<^verbatim>\<open>confidence_threshold\<close> and \<^verbatim>\<open>threshold_from_both_sides\<close> (the entry for
  \<^verbatim>\<open>activation\<close> is always \<^verbatim>\<open>None\<close>).
\<close>

record labeler =
  activation :: "(real tensor \<Rightarrow> real tensor) option"
  confidence_threshold :: "real option"
  threshold_from_both_sides :: bool
  init_kwargs :: "real option \<times> bool"

record scheduled = labeler +
  mode :: string
  factor :: real
  patience :: int
  threshold :: real
  threshold_mode :: string
  min_ct :: real
  eps :: real
  verbose :: bool
  best :: ext
  num_bad_epochs :: int
  last_epoch :: int

record probabilistic = labeler +
  prior_samples :: int
  consensus_masking :: bool

text \<open>
  A mask carries its element type: the one-sided mask of the default and the scheduled
  labeler is a boolean tensor, their two-sided mask is cast to float32. The mask of the
  probabilistic labeler is what \<^verbatim>\<open>sum(dim=0)\<close> leaves, a single slice, of floats or,
  after consensus masking, of integers.
\<close>

datatype mask = BoolMask "bool tensor" | FloatMask "real tensor"

datatype slice_mask = FloatSlice "real list" | IntSlice "int list"

subsection \<open>DefaultPseudoLabeler\<close>

definition default_init ::
  "(real tensor \<Rightarrow> real tensor) option \<Rightarrow> real option \<Rightarrow> bool \<Rightarrow> labeler" where
  "default_init act ct both =
     \<lparr> activation = act, confidence_threshold = ct,
       threshold_from_both_sides = both, init_kwargs = (ct, both) \<rparr>"

text \<open>
  Both mask methods read \<^verbatim>\<open>self.confidence_threshold\<close>; arithmetic or comparison with
  \<^verbatim>\<open>None\<close> raises TypeError. The sum of two boolean tensors is their disjunction.
\<close>

definition default_compute_label_mask_both_sides :: "labeler \<Rightarrow> real tensor \<Rightarrow> exn + mask" where
  "default_compute_label_mask_both_sides l pseudo_labels =
     (case confidence_threshold l of
        None \<Rightarrow> Inl TypeError
      | Some ct \<Rightarrow>
          (let upper_threshold = ct;
               lower_threshold = 1.0 - ct
           in Inr (FloatMask (map (map (\<lambda>x. if x \<ge> upper_threshold \<or> x \<le> lower_threshold
                                             then 1 else 0)) pseudo_labels))))"

definition default_compute_label_mask_one_side :: "labeler \<Rightarrow> real tensor \<Rightarrow> exn + mask" where
  "default_compute_label_mask_one_side l pseudo_labels =
     (case confidence_threshold l of
        None \<Rightarrow> Inl TypeError
      | Some ct \<Rightarrow> Inr (BoolMask (map (map (\<lambda>x. x \<ge> ct)) pseudo_labels)))"

definition default_call ::
  "labeler \<Rightarrow> ('i \<Rightarrow> real tensor) \<Rightarrow> 'i \<Rightarrow> exn + (real tensor \<times> mask option)" where
  "default_call l teacher inp =
     (let out = teacher inp;
          pseudo_labels = (case activation l of None \<Rightarrow> out | Some act \<Rightarrow> act out)
      in case confidence_threshold l of
           None \<Rightarrow> Inr (pseudo_labels, None)
         | Some _ \<Rightarrow>
             (case (if threshold_from_both_sides l
                    then default_compute_label_mask_both_sides l pseudo_labels
                    else default_compute_label_mask_one_side l pseudo_labels) of
                Inl e \<Rightarrow> Inl e
              | Inr label_mask \<Rightarrow> Inr (pseudo_labels, Some label_mask)))"

definition default_step :: "labeler \<Rightarrow> 'e \<Rightarrow> unit \<times> labeler" where
  "default_step l epoch = ((), l)"

subsection \<open>ProbabilisticPseudoLabeler\<close>

definition prob_init ::
  "(real tensor \<Rightarrow> real tensor) option \<Rightarrow> real option \<Rightarrow> bool \<Rightarrow> int \<Rightarrow> bool \<Rightarrow> probabilistic" where
  "prob_init act ct both n consensus =
     \<lparr> activation = act, confidence_threshold = ct,
       threshold_from_both_sides = both, init_kwargs = (ct, both),
       prior_samples = n, consensus_masking = consensus \<rparr>"

text \<open>
  The mask methods loop over their argument with \<^verbatim>\<open>for sample in pseudo_labels\<close> and
  return one 0/1 tensor per element. Their only caller hands them a tensor, whose
  elements are its slices along dimension 0.
\<close>

definition prob_compute_label_mask_both_sides ::
  "probabilistic \<Rightarrow> real tensor \<Rightarrow> exn + real list list" where
  "prob_compute_label_mask_both_sides l pseudo_labels =
     (case confidence_threshold l of
        None \<Rightarrow> Inl TypeError
      | Some ct \<Rightarrow>
          (let upper_threshold = ct;
               lower_threshold = 1.0 - ct
           in Inr (map (\<lambda>sample. map (\<lambda>x. if x \<ge> upper_threshold \<or> x \<le> lower_threshold
                                            then 1 else 0) sample) pseudo_labels)))"

definition prob_compute_label_mask_one_side ::
  "probabilistic \<Rightarrow> real tensor \<Rightarrow> exn + real list list" where
  "prob_compute_label_mask_one_side l pseudo_labels =
     (case confidence_threshold l of
        None \<Rightarrow> Inl TypeError
      | Some ct \<Rightarrow>
          Inr (map (\<lambda>sample. map (\<lambda>x. if x \<ge> ct then 1 else 0) sample) pseudo_labels))"

text \<open>
  \<^verbatim>\<open>torch.stack(ts, dim=0).sum(dim=0)\<close>: stacking raises RuntimeError on an empty list
  and on tensors of different shapes; the sum over the new dimension adds the stacked
  tensors entry by entry.
\<close>

definition tensor_add :: "real tensor \<Rightarrow> real tensor \<Rightarrow> real tensor" where
  "tensor_add a b = map2 (map2 (+)) a b"

definition stack_sum_tensors :: "real tensor list \<Rightarrow> exn + real tensor" where
  "stack_sum_tensors ts =
     (case ts of
        [] \<Rightarrow> Inl RuntimeError
      | t # rest \<Rightarrow>
          if list_all (\<lambda>u. map length u = map length t) rest
          then Inr (foldl tensor_add t rest) else Inl RuntimeError)"

definition stack_sum_slices :: "real list list \<Rightarrow> exn + real list" where
  "stack_sum_slices rs =
     (case rs of
        [] \<Rightarrow> Inl RuntimeError
      | r # rest \<Rightarrow>
          if list_all (\<lambda>u. length u = length r) rest
          then Inr (foldl (map2 (+)) r rest) else Inl RuntimeError)"

text \<open>
  \<^verbatim>\<open>__call__\<close>. The teacher is given by the samples it yields after
  \<^verbatim>\<open>forward(input_)\<close>: \<open>teacher inp k\<close> is the result of the \<open>k\<close>-th call of
  \<^verbatim>\<open>sample()\<close>. The name \<^verbatim>\<open>pseudo_labels\<close> is rebound to the average of the samples
  before the mask is computed, so the mask methods receive the averaged tensor.
\<close>

definition prob_call ::
  "probabilistic \<Rightarrow> ('i \<Rightarrow> nat \<Rightarrow> real tensor) \<Rightarrow> 'i \<Rightarrow> exn + (real tensor \<times> slice_mask option)" where
  "prob_call l teacher inp =
     (let draws = map (teacher inp) [0..<nat (prior_samples l)];
          samples = (case activation l of None \<Rightarrow> draws | Some act \<Rightarrow> map act draws)
      in case stack_sum_tensors samples of
           Inl e \<Rightarrow> Inl e
         | Inr ssum \<Rightarrow>
             (let pseudo_labels = map (map (\<lambda>x. x / real_of_int (prior_samples l))) ssum
              in case confidence_threshold l of
                   None \<Rightarrow> Inr (pseudo_labels, None)
                 | Some _ \<Rightarrow>
                     (case (if threshold_from_both_sides l
                            then prob_compute_label_mask_both_sides l pseudo_labels
                            else prob_compute_label_mask_one_side l pseudo_labels) of
                        Inl e \<Rightarrow> Inl e
                      | Inr masks \<Rightarrow>
                          (case stack_sum_slices masks of
                             Inl e \<Rightarrow> Inl e
                           | Inr msum \<Rightarrow>
                               (let label_mask = map (\<lambda>x. x / real_of_int (prior_samples l)) msum
                                in Inr (pseudo_labels,
                                        Some (if consensus_masking l
                                              then IntSlice (map (\<lambda>x. if x = 1 then 1 else 0) label_mask)
                                              else FloatSlice label_mask)))))))"

definition prob_step :: "probabilistic \<Rightarrow> 'e \<Rightarrow> unit \<times> probabilistic" where
  "prob_step l epoch = ((), l)"

subsection \<open>ScheduledPseudoLabeler: construction and scheduling\<close>

definition scheduled_init ::
  "(real tensor \<Rightarrow> real tensor) option \<Rightarrow> real option \<Rightarrow> bool \<Rightarrow> string \<Rightarrow> real \<Rightarrow> int \<Rightarrow>
   real \<Rightarrow> string \<Rightarrow> real \<Rightarrow> real \<Rightarrow> bool \<Rightarrow> exn + scheduled" where
  "scheduled_init act ct both md fac pat thr thr_md mn ep verb =
     (if md \<notin> {''min'', ''max''} then Inl ValueError
      else if fac \<ge> 1.0 then Inl ValueError
      else if thr_md \<notin> {''rel'', ''abs''} then Inl ValueError
      else Inr \<lparr> activation = act, confidence_threshold = ct,
                 threshold_from_both_sides = both, init_kwargs = (ct, both),
                 mode = md, factor = fac, patience = pat, threshold = thr,
                 threshold_mode = thr_md, min_ct = mn, eps = ep, verbose = verb,
                 best = (if md = ''min'' then PosInf else NegInf),
                 num_bad_epochs = 0, last_epoch = 0 \<rparr>)"

definition scheduled_compute_label_mask_both_sides :: "scheduled \<Rightarrow> real tensor \<Rightarrow> exn + mask" where
  "scheduled_compute_label_mask_both_sides s pseudo_labels =
     (case confidence_threshold s of
        None \<Rightarrow> Inl TypeError
      | Some ct \<Rightarrow>
          (let upper_threshold = ct;
               lower_threshold = 1.0 - ct
           in Inr (FloatMask (map (map (\<lambda>x. if x \<ge> upper_threshold \<or> x \<le> lower_threshold
                                             then 1 else 0)) pseudo_labels))))"

definition scheduled_compute_label_mask_one_side :: "scheduled \<Rightarrow> real tensor \<Rightarrow> exn + mask" where
  "scheduled_compute_label_mask_one_side s pseudo_labels =
     (case confidence_threshold s of
        None \<Rightarrow> Inl TypeError
      | Some ct \<Rightarrow> Inr (BoolMask (map (map (\<lambda>x. x \<ge> ct)) pseudo_labels)))"

definition scheduled_call ::
  "scheduled \<Rightarrow> ('i \<Rightarrow> real tensor) \<Rightarrow> 'i \<Rightarrow> exn + (real tensor \<times> mask option)" where
  "scheduled_call s teacher inp =
     (let out = teacher inp;
          pseudo_labels = (case activation s of None \<Rightarrow> out | Some act \<Rightarrow> act out)
      in case confidence_threshold s of
           None \<Rightarrow> Inr (pseudo_labels, None)
         | Some _ \<Rightarrow>
             (case (if threshold_from_both_sides s
                    then scheduled_compute_label_mask_both_sides s pseudo_labels
                    else scheduled_compute_label_mask_one_side s pseudo_labels) of
                Inl e \<Rightarrow> Inl e
              | Inr label_mask \<Rightarrow> Inr (pseudo_labels, Some label_mask)))"

definition is_better :: "scheduled \<Rightarrow> ext \<Rightarrow> ext \<Rightarrow> bool" where
  "is_better s a bst =
     (if mode s = ''min'' \<and> threshold_mode s = ''rel'' then
        (let rel_epsilon = 1.0 - threshold s in ext_less a (ext_times bst rel_epsilon))
      else if mode s = ''min'' \<and> threshold_mode s = ''abs'' then
        ext_less a (ext_plus bst (- threshold s))
      else if mode s = ''max'' \<and> threshold_mode s = ''rel'' then
        (let rel_epsilon = threshold s + 1.0 in ext_less (ext_times bst rel_epsilon) a)
      else ext_less (ext_plus bst (threshold s)) a)"

text \<open>
  \<^verbatim>\<open>_reduce_ct\<close>: arithmetic on a threshold that is \<^verbatim>\<open>None\<close> raises TypeError before
  anything is assigned.
\<close>

definition reduce_ct :: "scheduled \<Rightarrow> int \<Rightarrow> exn + scheduled" where
  "reduce_ct s epoch =
     (case confidence_threshold s of
        None \<Rightarrow> Inl TypeError
      | Some old_ct \<Rightarrow>
          (let new_ct = (if threshold_mode s = ''rel''
                         then max (old_ct * factor s) (min_ct s)
                         else max (old_ct - factor s) (min_ct s))
           in Inr (if old_ct - new_ct > eps s
                   then s\<lparr>confidence_threshold := Some new_ct\<rparr> else s)))"

text \<open>
  \<^verbatim>\<open>step(metric, epoch=None)\<close>. The first component of the result is the exception the
  call raised, if any; the second is the object as the call left it.
\<close>

definition step :: "scheduled \<Rightarrow> ext \<Rightarrow> int option \<Rightarrow> exn option \<times> scheduled" where
  "step s metric epoch =
     (let current = metric;
          ep = (case epoch of None \<Rightarrow> last_epoch s + 1 | Some e \<Rightarrow> e);
          s1 = s\<lparr>last_epoch := ep\<rparr>;
          s2 = (if is_better s1 current (best s1)
                then s1\<lparr>best := current, num_bad_epochs := 0\<rparr>
                else s1\<lparr>num_bad_epochs := num_bad_epochs s1 + 1\<rparr>)
      in if num_bad_epochs s2 > patience s2 then
           (case reduce_ct s2 ep of
              Inl e \<Rightarrow> (Some e, s2)
            | Inr s3 \<Rightarrow> (None, s3\<lparr>num_bad_epochs := 0\<rparr>))
         else (None, s2))"

text \<open>
  A sequence of \<^verbatim>\<open>step\<close> calls on one object, each with its metric and epoch; an
  exception that no caller catches ends the sequence.
\<close>

fun run :: "scheduled \<Rightarrow> (ext \<times> int option) list \<Rightarrow> exn + scheduled" where
  "run s [] = Inr s"
| "run s ((m, e) # cs) =
     (case step s m e of
        (Some x, s') \<Rightarrow> Inl x
      | (None, s') \<Rightarrow> run s' cs)"

subsection \<open>Reading a mask\<close>

text \<open>
  An entry of a mask keeps its prediction when it is \<^verbatim>\<open>True\<close>, respectively nonzero;
  the shape of a mask is the list of the lengths of its slices.
\<close>

fun kept :: "mask \<Rightarrow> nat \<Rightarrow> nat \<Rightarrow> bool" where
  "kept (BoolMask t) b k = t ! b ! k"
| "kept (FloatMask t) b k = (t ! b ! k \<noteq> 0)"

fun mask_shape :: "mask \<Rightarrow> nat list" where
  "mask_shape (BoolMask t) = map length t"
| "mask_shape (FloatMask t) = map length t"

text \<open>
  The threshold test of one prediction, and the share of the drawn samples whose
  prediction at slice \<open>b\<close>, entry \<open>k\<close> passes it: the value the specification gives to
  the soft confidence mask of the probabilistic labeler at that pixel.
\<close>

definition passes :: "bool \<Rightarrow> real \<Rightarrow> real \<Rightarrow> bool" where
  "passes both ct x = (if both then x \<ge> ct \<or> x \<le> 1 - ct else x \<ge> ct)"

definition spec_sample_fraction :: "bool \<Rightarrow> real \<Rightarrow> real tensor list \<Rightarrow> nat \<Rightarrow> nat \<Rightarrow> real" where
  "spec_sample_fraction both ct draws b k =
     real (length (filter (\<lambda>d. passes both ct (d ! b ! k)) draws)) / real (length draws)"

subsection \<open>Example objects\<close>

text \<open>A scheduler with the default arguments but threshold 0.9 and patience 0.\<close>

definition plateau_init :: scheduled where
  "plateau_init = \<lparr> activation = None, confidence_threshold = Some (9/10),
       threshold_from_both_sides = True, init_kwargs = (Some (9/10), True),
       mode = ''min'', factor = 5/100, patience = 0, threshold = 1/10^4,
       threshold_mode = ''abs'', min_ct = 1/2, eps = 1/10^8, verbose = True,
       best = PosInf, num_bad_epochs = 0, last_epoch = 0 \<rparr>"

text \<open>The same object after a first call \<^verbatim>\<open>step(1.0)\<close>.\<close>

definition plateau_seen :: scheduled where
  "plateau_seen = plateau_init\<lparr> best := Fin 1, last_epoch := 1 \<rparr>"

text \<open>The same scheduler with a threshold 5e-9 above the floor.\<close>

definition tight_init :: scheduled where
  "tight_init = plateau_init\<lparr> confidence_threshold := Some (1/2 + 5/10^9),
                              init_kwargs := (Some (1/2 + 5/10^9), True) \<rparr>"

definition tight_seen :: scheduled where
  "tight_seen = tight_init\<lparr> best := Fin 1, last_epoch := 1 \<rparr>"


text \<open>
  A teacher over a batch of one image with one pixel whose first sample is 0.9 and whose
  later samples are 1.0, and probabilistic labelers drawing two samples at threshold 0.8.
\<close>

definition sure_teacher :: "unit \<Rightarrow> nat \<Rightarrow> real tensor" where
  "sure_teacher inp k = (if k = 0 then [[9/10]] else [[1]])"

definition soft_labeler :: probabilistic where
  "soft_labeler = prob_init None (Some (4/5)) True 2 False"

definition consensus_labeler :: probabilistic where
  "consensus_labeler = prob_init None (Some (4/5)) True 2 True"

text \<open>Default labelers with threshold 0.8, one-sided or two-sided.\<close>

definition edge_labeler :: "bool \<Rightarrow> labeler" where
  "edge_labeler both = default_init None (Some (4/5)) both"

section \<open>Properties of the scheduler\<close>

subsection \<open>Auxiliary facts\<close>

lemma is_better_last_epoch: "is_better (s\<lparr>last_epoch := e\<rparr>) a b = is_better s a b"
  by (simp add: is_better_def)

lemma step_frame:
  "min_ct (snd (step s m e)) = min_ct s \<and> patience (snd (step s m e)) = patience s"
  by (simp add: step_def Let_def reduce_ct_def split: option.splits)

lemma step_keeps_floor:
  assumes "confidence_threshold s = Some c" "min_ct s \<le> c"
  shows "\<exists>c'. step s m e = (None, snd (step s m e)) \<and>
              confidence_threshold (snd (step s m e)) = Some c' \<and> min_ct s \<le> c'"
  using assms by (auto simp add: step_def Let_def reduce_ct_def)

lemma run_keeps_floor:
  "confidence_threshold s = Some c \<Longrightarrow> min_ct s \<le> c \<Longrightarrow>
   \<exists>s' c'. run s calls = Inr s' \<and> confidence_threshold s' = Some c' \<and>
           min_ct s' = min_ct s \<and> min_ct s \<le> c'"
proof (induction calls arbitrary: s c)
  case Nil
  then show ?case by simp
next
  case (Cons call calls)
  obtain m e where call: "call = (m, e)" by (cases call)
  from step_keeps_floor[OF Cons.prems, of m e]
  obtain c' where ok: "step s m e = (None, snd (step s m e))"
    and ct: "confidence_threshold (snd (step s m e)) = Some c'" and fl: "min_ct s \<le> c'"
    by blast
  have mn: "min_ct (snd (step s m e)) = min_ct s" by (simp add: step_frame)
  from Cons.IH[OF ct] fl mn
  obtain s' c'' where "run (snd (step s m e)) calls = Inr s'" "confidence_threshold s' = Some c''"
    "min_ct s' = min_ct s" "min_ct s \<le> c''" by auto
  moreover have "run s (call # calls) = run (snd (step s m e)) calls"
    using ok call by (simp split: prod.splits option.splits) (metis fst_conv option.distinct(1) snd_conv)
  ultimately show ?case by auto
qed

lemma plateau_init_constructed:
  "scheduled_init None (Some (9/10)) True ''min'' (5/100) 0 (1/10^4) ''abs'' (1/2) (1/10^8) True
     = Inr plateau_init"
  by (simp add: scheduled_init_def plateau_init_def)


lemma plateau_not_better: "\<not> is_better plateau_seen (Fin 1) (best plateau_seen)"
  by (simp add: plateau_init_def plateau_seen_def is_better_def)



subsection \<open>Claims\<close>

text \<open>
  Claim C2. For every construction that succeeds with an initial confidence threshold of at least \<open>min_ct\<close>, every sequence of \<^verbatim>\<open>step\<close> calls returns normally and leaves a confidence threshold that is not below \<open>min_ct\<close>.
\<close>

theorem threshold_never_below_floor:
  assumes "scheduled_init act (Some c0) both md fac pat thr thr_md mn ep verb = Inr s0"
    and "mn \<le> c0"
  shows "\<exists>s' c. run s0 calls = Inr s' \<and> confidence_threshold s' = Some c \<and> mn \<le> c"
proof -
  from assms(1) have "confidence_threshold s0 = Some c0" "min_ct s0 = mn"
    by (auto simp add: scheduled_init_def split: if_splits)
  with run_keeps_floor[of s0 c0 calls] assms(2) show ?thesis by auto
qed

theorem threshold_never_below_floor_witness:
  "\<exists>s' c. run plateau_init [(Fin 1, None), (Fin 1, None), (Fin 2, Some 7)] = Inr s'
      \<and> confidence_threshold s' = Some c \<and> 1/2 \<le> c"
proof -
  have f: "(1/2::real) \<le> 9/10" by simp
  show ?thesis by (rule threshold_never_below_floor[OF plateau_init_constructed f])
qed

text \<open>
  Claim C3. When \<^verbatim>\<open>step\<close> observes a metric that \<^verbatim>\<open>_is_better\<close> than the best-seen value, the object it leaves has \<open>num_bad_epochs = 0\<close> and \<open>best\<close> equal to that metric (also when the call goes on to reduce the threshold).
\<close>

theorem step_resets_on_improvement:
  assumes "is_better s metric (best s)"
  shows "num_bad_epochs (snd (step s metric epoch)) = 0 \<and> best (snd (step s metric epoch)) = metric"
  using assms by (simp add: step_def Let_def is_better_last_epoch reduce_ct_def split: option.splits)

theorem step_resets_on_improvement_witness:
  "is_better plateau_init (Fin 1) (best plateau_init)
   \<and> num_bad_epochs (snd (step plateau_init (Fin 1) None)) = 0
   \<and> best (snd (step plateau_init (Fin 1) None)) = Fin 1"
proof -
  have b: "is_better plateau_init (Fin 1) (best plateau_init)"
    by (simp add: is_better_def plateau_init_def)
  show ?thesis using b step_resets_on_improvement[OF b, of None] by simp
qed

text \<open>
  Claim C4, as stated, fails. With all scheduler defaults, patience 0 and a threshold 5e-9 above the floor, the second call \<^verbatim>\<open>step(1.0)\<close> exceeds the patience budget in mode \<^verbatim>\<open>abs\<close>, yet the threshold is not set to \<open>max (ct - factor) min_ct\<close>: the change would be within \<open>eps\<close> and is skipped.
\<close>

theorem reduction_skipped_within_eps:
  "scheduled_init None (Some (1/2 + 5/10^9)) True ''min'' (5/100) 0 (1/10^4) ''abs'' (1/2) (1/10^8) True
        = Inr tight_init
   \<and> step tight_init (Fin 1) None = (None, tight_seen)
   \<and> \<not> is_better tight_seen (Fin 1) (best tight_seen)
   \<and> patience tight_seen < num_bad_epochs tight_seen + 1
   \<and> threshold_mode tight_seen = ''abs''
   \<and> confidence_threshold tight_seen = Some (1/2 + 5/10^9)
   \<and> confidence_threshold (snd (step tight_seen (Fin 1) None))
        \<noteq> Some (max (1/2 + 5/10^9 - factor tight_seen) (min_ct tight_seen))"
  by (simp add: scheduled_init_def step_def tight_init_def tight_seen_def plateau_init_def
        is_better_def Let_def reduce_ct_def)

text \<open>
  Claim C4, amended. When a non-improving call of \<^verbatim>\<open>step\<close> takes the counter above the patience budget and the threshold is set, the call returns normally, the counter is reset to zero, and the threshold becomes \<open>max (ct * factor) min_ct\<close> in mode \<^verbatim>\<open>rel\<close> and \<open>max (ct - factor) min_ct\<close> otherwise, provided this lowers it by more than \<open>eps\<close>; otherwise the threshold is unchanged.
\<close>

theorem step_reduces_threshold:
  assumes "\<not> is_better s metric (best s)"
    and "patience s < num_bad_epochs s + 1"
    and "confidence_threshold s = Some c"
  shows "fst (step s metric epoch) = None
       \<and> num_bad_epochs (snd (step s metric epoch)) = 0
       \<and> confidence_threshold (snd (step s metric epoch)) =
           Some (if threshold_mode s = ''rel''
                 then (if eps s < c - max (c * factor s) (min_ct s)
                       then max (c * factor s) (min_ct s) else c)
                 else (if eps s < c - max (c - factor s) (min_ct s)
                       then max (c - factor s) (min_ct s) else c))"
  using assms by (simp add: step_def Let_def is_better_last_epoch reduce_ct_def)

theorem step_reduces_threshold_witness:
  "\<not> is_better plateau_seen (Fin 1) (best plateau_seen)
   \<and> patience plateau_seen < num_bad_epochs plateau_seen + 1
   \<and> confidence_threshold plateau_seen = Some (9/10)
   \<and> fst (step plateau_seen (Fin 1) None) = None
   \<and> num_bad_epochs (snd (step plateau_seen (Fin 1) None)) = 0
   \<and> confidence_threshold (snd (step plateau_seen (Fin 1) None)) = Some (17/20)"
proof -
  have p: "patience plateau_seen < num_bad_epochs plateau_seen + 1"
    by (simp add: plateau_seen_def plateau_init_def)
  have c: "confidence_threshold plateau_seen = Some (9/10)"
    by (simp add: plateau_seen_def plateau_init_def)
  have v: "threshold_mode plateau_seen = ''abs''" "factor plateau_seen = 5/100"
    "min_ct plateau_seen = 1/2" "eps plateau_seen = 1/10^8"
    by (simp_all add: plateau_seen_def plateau_init_def)
  show ?thesis
    using plateau_not_better p c step_reduces_threshold[OF plateau_not_better p c, of None]
    by (simp add: v)
qed

text \<open>
  Claim C7. Construction raises ValueError exactly when mode is neither \<^verbatim>\<open>min\<close> nor \<^verbatim>\<open>max\<close>, or factor is at least 1.0, or threshold\_mode is neither \<^verbatim>\<open>rel\<close> nor \<^verbatim>\<open>abs\<close>; in every other case it returns an object and raises nothing.
\<close>

theorem scheduled_init_raises_iff:
  "(scheduled_init act ct both md fac pat thr thr_md mn ep verb = Inl ValueError)
     = (md \<notin> {''min'', ''max''} \<or> fac \<ge> 1 \<or> thr_md \<notin> {''rel'', ''abs''})
   \<and> ((\<exists>s. scheduled_init act ct both md fac pat thr thr_md mn ep verb = Inr s)
     = (\<not> (md \<notin> {''min'', ''max''} \<or> fac \<ge> 1 \<or> thr_md \<notin> {''rel'', ''abs''})))
   \<and> scheduled_init act ct both md fac pat thr thr_md mn ep verb \<noteq> Inl TypeError
   \<and> scheduled_init act ct both md fac pat thr thr_md mn ep verb \<noteq> Inl RuntimeError"
  unfolding scheduled_init_def by (simp del: insert_iff)

theorem scheduled_init_raises_iff_witness:
  "(\<exists>s. scheduled_init None None True ''min'' (5/100) 10 (1/10^4) ''abs'' (1/2) (1/10^8) True = Inr s)
   \<and> scheduled_init None None True ''min'' 1 10 (1/10^4) ''abs'' (1/2) (1/10^8) True = Inl ValueError
   \<and> scheduled_init None None True ''sum'' (5/100) 10 (1/10^4) ''abs'' (1/2) (1/10^8) True = Inl ValueError
   \<and> scheduled_init None None True ''max'' (5/100) 10 (1/10^4) ''both'' (1/2) (1/10^8) True = Inl ValueError"
  using scheduled_init_raises_iff[of None None True "''min''" "5/100" 10 "1/10^4" "''abs''" "1/2" "1/10^8" True]
    scheduled_init_raises_iff[of None None True "''min''" 1 10 "1/10^4" "''abs''" "1/2" "1/10^8" True]
    scheduled_init_raises_iff[of None None True "''sum''" "5/100" 10 "1/10^4" "''abs''" "1/2" "1/10^8" True]
    scheduled_init_raises_iff[of None None True "''max''" "5/100" 10 "1/10^4" "''both''" "1/2" "1/10^8" True]
  by simp




text \<open>
  Claim C10. \<^verbatim>\<open>DefaultPseudoLabeler.step\<close> and \<^verbatim>\<open>ProbabilisticPseudoLabeler.step\<close> return \<^verbatim>\<open>None\<close> and leave the object as it was, for every argument, whereas \<^verbatim>\<open>ScheduledPseudoLabeler.step\<close> changes its object (here the best-seen value and the epoch).
\<close>

theorem plain_steps_are_noops:
  "default_step l epoch = ((), l) \<and> prob_step p epoch' = ((), p)
   \<and> snd (step plateau_init (Fin 1) None) \<noteq> plateau_init"
  by (simp add: default_step_def prob_step_def step_def plateau_init_def is_better_def Let_def)

section \<open>Properties of the masks\<close>

text \<open>
  Claim C1, evaluated at a failing input. With two prior samples 0.9 and 1.0 of a single pixel and threshold 0.8, both samples pass the threshold test, so their share is 1, while \<^verbatim>\<open>ProbabilisticPseudoLabeler.__call__\<close> returns the average 0.95 as pseudo-label and 0.5 as mask: it thresholds the slices of the averaged tensor, not the samples.
\<close>

theorem soft_mask_is_not_sample_fraction:
  "prob_call soft_labeler sure_teacher () = Inr ([[19/20]], Some (FloatSlice [1/2]))
   \<and> spec_sample_fraction True (4/5) [sure_teacher () 0, sure_teacher () 1] 0 0 = 1"
  by (simp add: prob_call_def soft_labeler_def prob_init_def sure_teacher_def
        stack_sum_tensors_def stack_sum_slices_def tensor_add_def
        prob_compute_label_mask_both_sides_def spec_sample_fraction_def passes_def
        Let_def upt_rec)

text \<open>
  Claim C5, evaluated at a failing input. With consensus masking enabled and the same two samples, both of which pass the threshold test at the pixel, \<^verbatim>\<open>ProbabilisticPseudoLabeler.__call__\<close> returns the mask value 0 at that pixel.
\<close>

theorem consensus_mask_misses_agreement:
  "prob_call consensus_labeler sure_teacher () = Inr ([[19/20]], Some (IntSlice [0]))
   \<and> passes True (4/5) (sure_teacher () 0 ! 0 ! 0) \<and> passes True (4/5) (sure_teacher () 1 ! 0 ! 0)"
  by (simp add: prob_call_def consensus_labeler_def prob_init_def sure_teacher_def
        stack_sum_tensors_def stack_sum_slices_def tensor_add_def
        prob_compute_label_mask_both_sides_def passes_def
        Let_def upt_rec)

text \<open>
  Claim C6, as stated, fails. At threshold 0.8 the one-sided mask keeps a prediction equal to 0.8, which is not above the threshold, and the two-sided mask keeps a prediction equal to 0.2, which is neither above 0.8 nor below 1 - 0.8.
\<close>

theorem boundary_prediction_is_kept:
  "default_call (edge_labeler False) (\<lambda>u::unit. [[4/5]]) () = Inr ([[4/5]], Some (BoolMask [[True]]))
   \<and> kept (BoolMask [[True]]) 0 0 \<and> \<not> ((4/5::real) < 4/5)
   \<and> default_call (edge_labeler True) (\<lambda>u::unit. [[1/5]]) () = Inr ([[1/5]], Some (FloatMask [[1]]))
   \<and> kept (FloatMask [[1]]) 0 0 \<and> \<not> ((4/5::real) < 1/5) \<and> \<not> ((1/5::real) < 1 - 4/5)"
  by (simp add: default_call_def edge_labeler_def default_init_def
        default_compute_label_mask_one_side_def default_compute_label_mask_both_sides_def)

text \<open>
  Claim C6, amended. Called with a confidence threshold \<open>c\<close>, the default and the scheduled labeler return the (activated) teacher prediction and a mask of its shape that keeps an entry exactly when the prediction there is at least \<open>c\<close> (one-sided), respectively at least \<open>c\<close> or at most \<open>1 - c\<close> (two-sided).
\<close>

theorem mask_keeps_at_or_beyond_threshold:
  assumes "confidence_threshold l = Some c"
    and "p = (case activation l of None \<Rightarrow> teacher inp | Some act \<Rightarrow> act (teacher inp))"
    and "confidence_threshold s = Some c'"
    and "p' = (case activation s of None \<Rightarrow> teacher' inp' | Some act \<Rightarrow> act (teacher' inp'))"
  shows "(\<exists>m. default_call l teacher inp = Inr (p, Some m) \<and> mask_shape m = map length p
            \<and> (\<forall>b<length p. \<forall>k<length (p ! b).
                 kept m b k = (if threshold_from_both_sides l
                               then c \<le> p ! b ! k \<or> p ! b ! k \<le> 1 - c
                               else c \<le> p ! b ! k)))
       \<and> (\<exists>m. scheduled_call s teacher' inp' = Inr (p', Some m) \<and> mask_shape m = map length p'
            \<and> (\<forall>b<length p'. \<forall>k<length (p' ! b).
                 kept m b k = (if threshold_from_both_sides s
                               then c' \<le> p' ! b ! k \<or> p' ! b ! k \<le> 1 - c'
                               else c' \<le> p' ! b ! k)))"
proof
  show "\<exists>m. default_call l teacher inp = Inr (p, Some m) \<and> mask_shape m = map length p
            \<and> (\<forall>b<length p. \<forall>k<length (p ! b).
                 kept m b k = (if threshold_from_both_sides l
                               then c \<le> p ! b ! k \<or> p ! b ! k \<le> 1 - c
                               else c \<le> p ! b ! k))"
    using assms(1,2)
    by (simp add: default_call_def default_compute_label_mask_one_side_def
          default_compute_label_mask_both_sides_def Let_def)
  show "\<exists>m. scheduled_call s teacher' inp' = Inr (p', Some m) \<and> mask_shape m = map length p'
            \<and> (\<forall>b<length p'. \<forall>k<length (p' ! b).
                 kept m b k = (if threshold_from_both_sides s
                               then c' \<le> p' ! b ! k \<or> p' ! b ! k \<le> 1 - c'
                               else c' \<le> p' ! b ! k))"
    using assms(3,4)
    by (simp add: scheduled_call_def scheduled_compute_label_mask_one_side_def
          scheduled_compute_label_mask_both_sides_def Let_def)
qed


theorem mask_keeps_at_or_beyond_threshold_witness:
  "(\<exists>m. default_call (edge_labeler False) (\<lambda>u::unit. [[4/5, 1/2]]) () = Inr ([[4/5, 1/2]], Some m)
        \<and> kept m 0 0 \<and> \<not> kept m 0 1)
   \<and> (\<exists>m. scheduled_call plateau_seen (\<lambda>u::unit. [[1/10, 1/2]]) () = Inr ([[1/10, 1/2]], Some m)
        \<and> kept m 0 0 \<and> \<not> kept m 0 1)"
proof -
  have h1: "confidence_threshold (edge_labeler False) = Some (4/5)"
    by (simp add: edge_labeler_def default_init_def)
  have h2: "[[4/5, 1/2]] = (case activation (edge_labeler False) of
                             None \<Rightarrow> (\<lambda>u::unit. [[4/5, 1/2::real]]) ()
                           | Some act \<Rightarrow> act ((\<lambda>u::unit. [[4/5, 1/2]]) ()))"
    by (simp add: edge_labeler_def default_init_def)
  have h3: "confidence_threshold plateau_seen = Some (9/10)"
    by (simp add: plateau_seen_def plateau_init_def)
  have h4: "[[1/10, 1/2]] = (case activation plateau_seen of
                              None \<Rightarrow> (\<lambda>u::unit. [[1/10, 1/2::real]]) ()
                            | Some act \<Rightarrow> act ((\<lambda>u::unit. [[1/10, 1/2]]) ()))"
    by (simp add: plateau_seen_def plateau_init_def)
  have b: "\<not> threshold_from_both_sides (edge_labeler False)" "threshold_from_both_sides plateau_seen"
    by (simp_all add: edge_labeler_def default_init_def plateau_seen_def plateau_init_def)
  from mask_keeps_at_or_beyond_threshold[
      where l = "edge_labeler False" and teacher = "\<lambda>u::unit. [[4/5, 1/2]]" and inp = "()"
        and s = plateau_seen and teacher' = "\<lambda>u::unit. [[1/10, 1/2]]" and inp' = "()",
      OF h1 h2 h3 h4]
  obtain m m' where
    d: "default_call (edge_labeler False) (\<lambda>u::unit. [[4/5, 1/2]]) () = Inr ([[4/5, 1/2]], Some m)"
    and dk: "\<forall>b<length [[4/5, 1/2::real]]. \<forall>k<length ([[4/5, 1/2::real]] ! b).
               kept m b k = (if threshold_from_both_sides (edge_labeler False)
                             then 4/5 \<le> [[4/5, 1/2::real]] ! b ! k \<or> [[4/5, 1/2::real]] ! b ! k \<le> 1 - 4/5
                             else 4/5 \<le> [[4/5, 1/2::real]] ! b ! k)"
    and sc: "scheduled_call plateau_seen (\<lambda>u::unit. [[1/10, 1/2]]) () = Inr ([[1/10, 1/2]], Some m')"
    and sk: "\<forall>b<length [[1/10, 1/2::real]]. \<forall>k<length ([[1/10, 1/2::real]] ! b).
               kept m' b k = (if threshold_from_both_sides plateau_seen
                             then 9/10 \<le> [[1/10, 1/2::real]] ! b ! k \<or> [[1/10, 1/2::real]] ! b ! k \<le> 1 - 9/10
                             else 9/10 \<le> [[1/10, 1/2::real]] ! b ! k)"
    by blast
  from dk b(1) have "kept m 0 0" "\<not> kept m 0 1" by simp_all
  moreover from sk b(2) have "kept m' 0 0" "\<not> kept m' 0 1" by simp_all
  ultimately show ?thesis using d sc by blast
qed


end
